theory Spec2Isabelle
  imports
    Complex_Main
    "HOL-Library.Char_ord"
    "HOL-Library.List_Lexorder"
    "HOL-Library.Product_Lexorder"
begin

section \<open>The ledger table\<close>

text \<open>
  The repository holds one pandas dataframe, a flat ledger table. A row carries the
  columns that \<^verbatim>\<open>Repo.from_parquet\<close> normalises (strings, with a missing value
  as \<open>None\<close>), the numeric column \<^verbatim>\<open>profit\<close> and the derived numeric column
  \<^verbatim>\<open>year_int\<close> (\<open>None\<close> stands for NaN). The dataframe is the list of its rows, in
  index order.

  Numbers of the profit column are floats in the source. They are taken here as exact
  reals: the statements below are about which rows are summed, not about rounding.
\<close>

record row =
  entity_name :: "string option"
  property_name :: "string option"
  tenant_name :: "string option"
  ledger_type :: "string option"
  ledger_group :: "string option"
  ledger_category :: "string option"
  ledger_description :: "string option"
  month :: "string option"
  quarter :: "string option"
  year :: "string option"
  profit :: real
  year_int :: "real option"

type_synonym dataframe = "row list"

record Repo =
  df :: dataframe

text \<open>The column index of the dataframe (\<^verbatim>\<open>df.columns\<close>).\<close>

definition columns :: "string list" where
  "columns = [''entity_name'', ''property_name'', ''tenant_name'', ''ledger_type'',
     ''ledger_group'', ''ledger_category'', ''ledger_description'', ''month'',
     ''quarter'', ''year'', ''profit'', ''year_int'']"

text \<open>A cell of a column: a string, a number, or the missing value.\<close>

datatype cell = Str string | Num real | NaN

definition str_cell :: "string option \<Rightarrow> cell" where
  "str_cell v = (case v of None \<Rightarrow> NaN | Some s \<Rightarrow> Str s)"

definition num_cell :: "real option \<Rightarrow> cell" where
  "num_cell v = (case v of None \<Rightarrow> NaN | Some x \<Rightarrow> Num x)"

text \<open>\<^verbatim>\<open>df[c]\<close> at one row, for a column name \<open>c\<close> of \<^const>\<open>columns\<close>.\<close>

definition get_col :: "string \<Rightarrow> row \<Rightarrow> cell" where
  "get_col c r =
     (if c = ''entity_name'' then str_cell (entity_name r)
      else if c = ''property_name'' then str_cell (property_name r)
      else if c = ''tenant_name'' then str_cell (tenant_name r)
      else if c = ''ledger_type'' then str_cell (ledger_type r)
      else if c = ''ledger_group'' then str_cell (ledger_group r)
      else if c = ''ledger_category'' then str_cell (ledger_category r)
      else if c = ''ledger_description'' then str_cell (ledger_description r)
      else if c = ''month'' then str_cell (month r)
      else if c = ''quarter'' then str_cell (quarter r)
      else if c = ''year'' then str_cell (year r)
      else if c = ''profit'' then Num (profit r)
      else num_cell (year_int r))"

section \<open>Python strings and slices\<close>

text \<open>
  \<^verbatim>\<open>str.lower\<close> on the ASCII letters; a \<^typ>\<open>char\<close> is a byte, and the bytes
  outside \<open>A..Z\<close> are left as they are.
\<close>

definition lower_char :: "char \<Rightarrow> char" where
  "lower_char c =
     (case map_of (zip ''ABCDEFGHIJKLMNOPQRSTUVWXYZ'' ''abcdefghijklmnopqrstuvwxyz'') c of
        None \<Rightarrow> c
      | Some d \<Rightarrow> d)"

definition lower :: "string \<Rightarrow> string" where
  "lower s = map lower_char s"

text \<open>\<^verbatim>\<open>str.strip()\<close>: the ASCII whitespace bytes 9..13, 28..31 and 32.\<close>

definition is_space :: "char \<Rightarrow> bool" where
  "is_space c = (c \<in> set [CHR 0x09, CHR 0x0A, CHR 0x0B, CHR 0x0C, CHR 0x0D,
                             CHR 0x1C, CHR 0x1D, CHR 0x1E, CHR 0x1F, CHR 0x20])"

definition strip :: "string \<Rightarrow> string" where
  "strip s = rev (dropWhile is_space (rev (dropWhile is_space s)))"

text \<open>\<^verbatim>\<open>q in p\<close> on strings: \<open>q\<close> occurs in \<open>p\<close> as a contiguous substring.\<close>

fun starts_with :: "string \<Rightarrow> string \<Rightarrow> bool" where
  "starts_with [] p = True"
| "starts_with (c # q) [] = False"
| "starts_with (c # q) (d # p) = (c = d \<and> starts_with q p)"

fun contains :: "string \<Rightarrow> string \<Rightarrow> bool" where
  "contains q [] = (q = [])"
| "contains q (d # p) = (starts_with q (d # p) \<or> contains q p)"

text \<open>\<^verbatim>\<open>sep.join(xs)\<close>.\<close>

fun join :: "string \<Rightarrow> string list \<Rightarrow> string" where
  "join sep [] = []"
| "join sep [x] = x"
| "join sep (x # y # ys) = x @ sep @ join sep (y # ys)"

text \<open>
  \<^verbatim>\<open>xs[:n]\<close> for a Python integer \<open>n\<close>: the first \<open>n\<close> elements, and for a negative
  \<open>n\<close> all but the last \<open>-n\<close>.
\<close>

definition slice_to :: "int \<Rightarrow> 'a list \<Rightarrow> 'a list" where
  "slice_to n xs = (if 0 \<le> n then take (nat n) xs else take (length xs - nat (- n)) xs)"

text \<open>\<^verbatim>\<open>Series.head(n)\<close> is \<^verbatim>\<open>iloc[:n]\<close>; with \<open>n = None\<close> the slice is the whole series.\<close>

definition head :: "int option \<Rightarrow> 'a list \<Rightarrow> 'a list" where
  "head n xs = (case n of None \<Rightarrow> xs | Some k \<Rightarrow> slice_to k xs)"

section \<open>Series operations\<close>

text \<open>\<^verbatim>\<open>dropna()\<close> on a column of optional values.\<close>

fun dropna :: "'a option list \<Rightarrow> 'a list" where
  "dropna [] = []"
| "dropna (None # xs) = dropna xs"
| "dropna (Some x # xs) = x # dropna xs"

text \<open>\<^verbatim>\<open>drop_duplicates()\<close> and \<^verbatim>\<open>unique()\<close>: the first occurrence of each value is kept.\<close>

fun drop_duplicates_acc :: "'a list \<Rightarrow> 'a list \<Rightarrow> 'a list" where
  "drop_duplicates_acc seen [] = []"
| "drop_duplicates_acc seen (x # xs) =
     (if x \<in> set seen then drop_duplicates_acc seen xs
      else x # drop_duplicates_acc (x # seen) xs)"

definition drop_duplicates :: "'a list \<Rightarrow> 'a list" where
  "drop_duplicates xs = drop_duplicates_acc [] xs"

section \<open>The repository (tools/repository.py)\<close>

definition list_properties :: "Repo \<Rightarrow> string list" where
  "list_properties repo = sort (drop_duplicates (dropna (map property_name (df repo))))"

definition search_property :: "Repo \<Rightarrow> string \<Rightarrow> int \<Rightarrow> string list" where
  "search_property repo query limit =
     (let q = strip (lower query);
          props = list_properties repo;
          hits = filter (\<lambda>p. contains q (lower p)) props
      in if hits \<noteq> [] then slice_to limit hits else slice_to limit props)"

text \<open>
  \<^verbatim>\<open>df[df["year_int"] == year]\<close> and the two string columns: a comparison with a
  missing cell is false, so a row with a missing value is dropped by a constraint on
  that column.
\<close>

definition filter_timeframe ::
  "Repo \<Rightarrow> int option \<Rightarrow> string option \<Rightarrow> string option \<Rightarrow> dataframe" where
  "filter_timeframe repo yr qt mo =
     (let d = df repo;
          d = (case yr of None \<Rightarrow> d
               | Some y \<Rightarrow> filter (\<lambda>r. year_int r = Some (real_of_int y)) d);
          d = (case qt of None \<Rightarrow> d | Some q \<Rightarrow> filter (\<lambda>r. quarter r = Some q) d);
          d = (case mo of None \<Rightarrow> d | Some m \<Rightarrow> filter (\<lambda>r. month r = Some m) d)
      in d)"

text \<open>\<^verbatim>\<open>fillna("")\<close> on a string column.\<close>

definition fillna :: "string option \<Rightarrow> string" where
  "fillna v = (case v of None \<Rightarrow> [] | Some s \<Rightarrow> s)"

definition filter_property :: "dataframe \<Rightarrow> string option \<Rightarrow> dataframe" where
  "filter_property d pn =
     (case pn of None \<Rightarrow> d
      | Some n \<Rightarrow> filter (\<lambda>r. fillna (property_name r) = n) d)"

definition filter_tenant :: "dataframe \<Rightarrow> string option \<Rightarrow> dataframe" where
  "filter_tenant d tn =
     (case tn of None \<Rightarrow> d
      | Some n \<Rightarrow> filter (\<lambda>r. fillna (tenant_name r) = n) d)"

record pnl_dict =
  revenue :: real
  expenses :: real
  net :: real

text \<open>\<^verbatim>\<open>property_name or ""\<close>: \<open>None\<close> and the empty string both give the empty string.\<close>

definition or_empty :: "string option \<Rightarrow> string" where
  "or_empty v = (case v of None \<Rightarrow> [] | Some s \<Rightarrow> s)"

definition property_pnl ::
  "Repo \<Rightarrow> string option \<Rightarrow> int option \<Rightarrow> string option \<Rightarrow> string option \<Rightarrow> pnl_dict" where
  "property_pnl repo pn yr qt mo =
     (let d = filter_timeframe repo yr qt mo;
          d = filter (\<lambda>r. fillna (property_name r) = or_empty pn) d
      in \<lparr> revenue = sum_list (map profit (filter (\<lambda>r. ledger_type r = Some ''revenue'') d)),
           expenses = sum_list (map profit (filter (\<lambda>r. ledger_type r = Some ''expenses'') d)),
           net = sum_list (map profit d) \<rparr>)"

section \<open>The calculations (tools/calculations.py)\<close>

definition pnl :: "dataframe \<Rightarrow> pnl_dict" where
  "pnl d =
     \<lparr> revenue = sum_list (map profit (filter (\<lambda>r. ledger_type r = Some ''revenue'') d)),
       expenses = sum_list (map profit (filter (\<lambda>r. ledger_type r = Some ''expenses'') d)),
       net = sum_list (map profit d) \<rparr>"

definition property_summary ::
  "Repo \<Rightarrow> string option \<Rightarrow> int option \<Rightarrow> string option \<Rightarrow> string option \<Rightarrow> pnl_dict" where
  "property_summary repo pn yr qt mo =
     (let d = filter_timeframe repo yr qt mo;
          d = filter_property d pn
      in pnl d)"

text \<open>
  \<^verbatim>\<open>compare_properties\<close> raises \<^verbatim>\<open>ValueError\<close> on fewer than two names; the node
  functions of the agents read the last message of the state, which raises
  \<^verbatim>\<open>IndexError\<close> on an empty message list; the graph runner gives up after its
  recursion limit.
\<close>

datatype error = ValueError | IndexError | GraphRecursionError | UnknownNode

record comparison =
  properties :: "(string \<times> pnl_dict) list"
  count :: nat

definition compare_properties ::
  "Repo \<Rightarrow> string list \<Rightarrow> int option \<Rightarrow> string option \<Rightarrow> string option
     \<Rightarrow> error + comparison" where
  "compare_properties repo property_names yr qt mo =
     (if length property_names < 2 then Inl ValueError
      else
        (let results = map (\<lambda>prop_name. (prop_name,
                              property_summary repo (Some prop_name) yr qt mo))
                           property_names
         in Inr \<lparr> properties = results, count = length results \<rparr>))"

text \<open>
  \<^verbatim>\<open>df.groupby(c, dropna=False)["profit"].sum()\<close>: one entry per distinct key of the
  column, the keys in sorted order with the missing key last, each with the sum of
  profit over the rows of that key.
\<close>

definition cell_rank :: "cell \<Rightarrow> nat \<times> real \<times> string" where
  "cell_rank k = (case k of Num x \<Rightarrow> (0, x, []) | Str s \<Rightarrow> (1, 0, s) | NaN \<Rightarrow> (2, 0, []))"

definition groupby_sum :: "string \<Rightarrow> dataframe \<Rightarrow> (cell \<times> real) list" where
  "groupby_sum c d =
     map (\<lambda>k. (k, sum_list (map profit (filter (\<lambda>r. get_col c r = k) d))))
         (sort_key cell_rank (drop_duplicates (map (get_col c) d)))"

text \<open>
  An entry \<^verbatim>\<open>{group_by: str(k), "expense": float(v)}\<close> of the result; the key is kept
  as the cell \<open>k\<close> that \<^verbatim>\<open>str\<close> renders.

  \<^verbatim>\<open>sort_values()\<close> orders the groups by ascending sum. pandas does not fix the order
  of groups with equal sums; the model keeps them in key order.
\<close>

record expense_entry =
  group_key :: cell
  expense :: real

definition top_expenses ::
  "Repo \<Rightarrow> string option \<Rightarrow> int option \<Rightarrow> string option \<Rightarrow> string option
     \<Rightarrow> string \<Rightarrow> int option \<Rightarrow> expense_entry list" where
  "top_expenses repo pn yr qt mo group_by top_n =
     (let d = filter_timeframe repo yr qt mo;
          d = filter_property d pn;
          d = filter (\<lambda>r. ledger_type r = Some ''expenses'') d
      in if group_by \<notin> set columns then []
         else
           (let g = sort_key snd (groupby_sum group_by d)
            in map (\<lambda>(k, v). \<lparr> group_key = k, expense = v \<rparr>) (head top_n g)))"

section \<open>The calc node (graph/app_graph.py)\<close>

text \<open>
  The slots dictionary is \<^verbatim>\<open>SlotOut.model_dump()\<close>. A field is \<open>None\<close> when the key is
  absent or null; \<^verbatim>\<open>top_n\<close> is read with a default that applies to an absent key
  only, so it keeps the two apart.
\<close>

record slots_dict =
  slot_properties :: "string list option"
  slot_tenants :: "string list option"
  slot_year :: "int option"
  slot_quarter :: "string option"
  slot_month :: "string option"
  slot_top_n :: "int option option"
  slot_breakdown_by :: "string option"

definition empty_slots :: slots_dict where
  "empty_slots = \<lparr> slot_properties = None, slot_tenants = None, slot_year = None,
     slot_quarter = None, slot_month = None, slot_top_n = None, slot_breakdown_by = None \<rparr>"

record period =
  period_year :: "int option"
  period_quarter :: "string option"
  period_month :: "string option"

datatype calc_result =
    ListProperties "string list"
  | PropertySummary string period pnl_dict
  | Comparison comparison period
  | TopExpenses "string option" period "expense_entry list"
  | AssetDetails string period pnl_dict "string list" "string list" nat
  | TenantSummary string period pnl_dict
  | Fallback

record message =
  role :: string
  content :: string

record AppState =
  messages :: "message list"
  intent :: "string option"
  confidence :: "real option"
  slots :: "slots_dict option"
  result :: "calc_result option"
  need_clarification :: "bool option"
  clarification_question :: "string option"

text \<open>
  What a node returns: the keys of the state it sets. \<open>None\<close> is a key the node
  leaves out; the messages it returns are appended.
\<close>

record update =
  set_messages :: "message list"
  set_intent :: "string option"
  set_confidence :: "real option"
  set_slots :: "slots_dict option"
  set_result :: "calc_result option"
  set_need_clarification :: "bool option"
  set_clarification_question :: "string option"

definition no_update :: update where
  "no_update = \<lparr> set_messages = [], set_intent = None, set_confidence = None,
     set_slots = None, set_result = None, set_need_clarification = None,
     set_clarification_question = None \<rparr>"

definition clarification :: "string \<Rightarrow> update" where
  "clarification q =
     no_update \<lparr> set_need_clarification := Some True, set_clarification_question := Some q \<rparr>"

definition calc_return :: "calc_result \<Rightarrow> update" where
  "calc_return res = no_update \<lparr> set_result := Some res, set_need_clarification := Some False \<rparr>"

text \<open>The validation loop of \<^verbatim>\<open>calc\<close> over the extracted property names.\<close>

fun validate_props ::
  "Repo \<Rightarrow> string list \<Rightarrow> string list \<Rightarrow> string list \<Rightarrow> string list
     \<Rightarrow> string list \<times> string list" where
  "validate_props repo valid_properties [] validated_props invalid_props =
     (validated_props, invalid_props)"
| "validate_props repo valid_properties (p # props) validated_props invalid_props =
     (if p \<in> set valid_properties
      then validate_props repo valid_properties props (validated_props @ [p]) invalid_props
      else
        (let matches = search_property repo p 1
         in if matches \<noteq> [] \<and> lower (hd matches) = lower p
            then validate_props repo valid_properties props
                   (validated_props @ [hd matches]) invalid_props
            else validate_props repo valid_properties props
                   validated_props (invalid_props @ [p])))"

definition first_or_none :: "string list \<Rightarrow> string option" where
  "first_or_none props = (case props of [] \<Rightarrow> None | p # _ \<Rightarrow> Some p)"

text \<open>The three clarification questions that \<^verbatim>\<open>calc\<close> formats.\<close>

definition invalid_property_question :: "string \<Rightarrow> string list \<Rightarrow> string" where
  "invalid_property_question p valid_properties =
     ''The property address '' @ [CHR 0x27] @ p @ [CHR 0x27]
       @ '' does not exist in the dataset. Available properties: ''
       @ join '', '' (take 3 valid_properties) @ ''...''"

definition which_property_question :: "string list \<Rightarrow> string" where
  "which_property_question valid_properties =
     ''Which property would you like details for? For example: ''
       @ join '', '' (take 3 valid_properties)"

definition two_properties_question :: "string list \<Rightarrow> string" where
  "two_properties_question valid_properties =
     ''Please specify at least two properties to compare. For example: ''
       @ join '', '' (take 2 valid_properties)"

text \<open>
  \<^verbatim>\<open>calc\<close> after the validation of the property names: the two guards on the
  validated names and the dispatch on the intent. \<open>props\<close> are the validated names.
\<close>

definition calc_dispatch ::
  "Repo \<Rightarrow> string list \<Rightarrow> string \<Rightarrow> string list \<Rightarrow> string list
     \<Rightarrow> int option \<Rightarrow> string option \<Rightarrow> string option \<Rightarrow> int option \<Rightarrow> string
     \<Rightarrow> error + update" where
  "calc_dispatch repo valid_properties intent_v props tenants yr qt mo top_n breakdown_by =
     (let per = \<lparr> period_year = yr, period_quarter = qt, period_month = mo \<rparr> in
      if intent_v = ''asset_details'' \<and> props = [] then
        Inr (clarification (which_property_question valid_properties))
      else if intent_v = ''compare_properties'' \<and> length props < 2 then
        Inr (clarification (two_properties_question valid_properties))
      else if intent_v = ''list_properties'' then
        Inr (calc_return (ListProperties valid_properties))
      else if intent_v = ''property_summary'' then
        (let prop = first_or_none props;
             d = filter_timeframe repo yr qt mo
         in case prop of
              None \<Rightarrow> Inr (calc_return (PropertySummary ''Entire Portfolio'' per (pnl d)))
            | Some p \<Rightarrow>
                if p = [] then Inr (calc_return (PropertySummary ''Entire Portfolio'' per (pnl d)))
                else Inr (calc_return (PropertySummary p per (pnl (filter_property d (Some p))))))
      else if intent_v = ''compare_properties'' then
        (case compare_properties repo props yr qt mo of
           Inl e \<Rightarrow> Inl e
         | Inr comparison \<Rightarrow> Inr (calc_return (Comparison comparison per)))
      else if intent_v = ''top_expenses'' then
        (let prop = first_or_none props;
             expenses_v = top_expenses repo prop yr qt mo breakdown_by top_n
         in Inr (calc_return (TopExpenses prop per expenses_v)))
      else if intent_v = ''asset_details'' then
        (case props of
           [] \<Rightarrow> Inr (clarification (which_property_question valid_properties))
         | prop # _ \<Rightarrow>
             (let d = filter_timeframe repo yr qt mo;
                  d = filter_property d (Some prop);
                  pnl_data = pnl d;
                  tenants = take 5 (drop_duplicates (dropna (map tenant_name d)));
                  ledger_groups = drop_duplicates (dropna (map ledger_group d))
              in Inr (calc_return (AssetDetails prop per pnl_data tenants ledger_groups
                        (length d)))))
      else if intent_v = ''tenant_summary'' then
        (case tenants of
           [] \<Rightarrow> Inr (clarification ''Which tenant do you want to analyze?'')
         | t # _ \<Rightarrow>
             (let d = filter_timeframe repo yr qt mo;
                  d = filter_tenant d (Some t)
              in Inr (calc_return (TenantSummary t per (pnl d)))))
      else Inr (calc_return Fallback))"

text \<open>What \<^verbatim>\<open>calc\<close> reads from the state, with the defaults of its \<^verbatim>\<open>get\<close> calls.\<close>

definition state_intent :: "AppState \<Rightarrow> string" where
  "state_intent state = (case intent state of None \<Rightarrow> ''fallback'' | Some i \<Rightarrow> i)"

definition state_slots :: "AppState \<Rightarrow> slots_dict" where
  "state_slots state = (case slots state of None \<Rightarrow> empty_slots | Some s \<Rightarrow> s)"

definition state_props :: "AppState \<Rightarrow> string list" where
  "state_props state =
     (case slot_properties (state_slots state) of None \<Rightarrow> [] | Some ps \<Rightarrow> ps)"

definition state_tenants :: "AppState \<Rightarrow> string list" where
  "state_tenants state =
     (case slot_tenants (state_slots state) of None \<Rightarrow> [] | Some ts \<Rightarrow> ts)"

definition state_top_n :: "AppState \<Rightarrow> int option" where
  "state_top_n state = (case slot_top_n (state_slots state) of None \<Rightarrow> Some 8 | Some n \<Rightarrow> n)"

definition state_breakdown_by :: "AppState \<Rightarrow> string" where
  "state_breakdown_by state =
     (case slot_breakdown_by (state_slots state) of
        None \<Rightarrow> ''ledger_group''
      | Some b \<Rightarrow> if b = [] then ''ledger_group'' else b)"

definition calc :: "Repo \<Rightarrow> AppState \<Rightarrow> error + update" where
  "calc repo state =
     (let intent_v = state_intent state;
          sl = state_slots state;
          props = state_props state;
          tenants = state_tenants state;
          yr = slot_year sl;
          qt = slot_quarter sl;
          mo = slot_month sl;
          top_n = state_top_n state;
          breakdown_by = state_breakdown_by state;
          valid_properties = list_properties repo;
          (validated_props, invalid_props) = validate_props repo valid_properties props [] []
      in
        if invalid_props \<noteq> [] then
          Inr (clarification (invalid_property_question (hd invalid_props) valid_properties))
        else
          calc_dispatch repo valid_properties intent_v validated_props tenants yr qt mo
            top_n breakdown_by)"

section \<open>The agent nodes (agents/router.py, agents/extractor.py)\<close>







section \<open>The graph (graph/app_graph.py)\<close>












section \<open>Notions of the specification\<close>


text \<open>
  The validation of an extracted name, as the specification words it: the name is an
  existing property name, or the top hit of the search equals it up to case.
\<close>

definition accepted :: "Repo \<Rightarrow> string \<Rightarrow> bool" where
  "accepted repo p =
     (p \<in> set (list_properties repo)
      \<or> (case search_property repo p 1 of [] \<Rightarrow> False | m # _ \<Rightarrow> lower m = lower p))"

text \<open>The validated name: the name itself on an exact match, the top hit otherwise.\<close>

definition canonical :: "Repo \<Rightarrow> string \<Rightarrow> string" where
  "canonical repo p =
     (if p \<in> set (list_properties repo) then p
      else (case search_property repo p 1 of [] \<Rightarrow> p | m # _ \<Rightarrow> m))"




text \<open>What the calc node may return: a result, or a clarification request.\<close>

definition returns_or_clarifies :: "error + update \<Rightarrow> bool" where
  "returns_or_clarifies out =
     ((\<exists>res. out = Inr (calc_return res)) \<or> (\<exists>q. out = Inr (clarification q)))"

section \<open>A small ledger\<close>

definition blank :: row where
  "blank = \<lparr> entity_name = None, property_name = None, tenant_name = None,
     ledger_type = None, ledger_group = None, ledger_category = None,
     ledger_description = None, month = None, quarter = None, year = None,
     profit = 0, year_int = None \<rparr>"

definition ledger :: Repo where
  "ledger = \<lparr> df =
     [blank \<lparr> property_name := Some ''Building B'', ledger_type := Some ''revenue'',
              ledger_group := Some ''rent'', profit := 5 \<rparr>,
      blank \<lparr> property_name := Some ''Building A'', ledger_type := Some ''expenses'',
              ledger_group := Some ''taxes'', profit := - 2 \<rparr>,
      blank \<lparr> property_name := Some ''Building A'', ledger_type := Some ''expenses'',
              ledger_group := Some ''repairs'', profit := - 3 \<rparr>,
      blank \<lparr> property_name := Some ''Carport'', tenant_name := Some ''Tenant 8'',
              profit := 7 \<rparr>] \<rparr>"

definition empty_state :: AppState where
  "empty_state = \<lparr> messages = [], intent = None, confidence = None, slots = None,
     result = None, need_clarification = None, clarification_question = None \<rparr>"

definition request :: "string \<Rightarrow> string list \<Rightarrow> string list \<Rightarrow> AppState" where
  "request i ps ts =
     empty_state \<lparr> messages := [\<lparr> role = ''user'', content = ''question'' \<rparr>],
                   intent := Some i,
                   slots := Some (empty_slots \<lparr> slot_properties := Some ps,
                                                slot_tenants := Some ts \<rparr>) \<rparr>"

section \<open>Profit and loss, filters\<close>

lemma sum_list_filter_index:
  "sum_list (map f (filter P xs)) = (\<Sum>i\<in>{i. i < length xs \<and> P (xs ! i)}. (f (xs ! i) :: real))"
proof -
  have "sum_list (map f (filter P xs)) = sum_list (map (\<lambda>x. if P x then f x else 0) xs)"
    by (induction xs) simp_all
  also have "\<dots> = (\<Sum>i<length xs. if P (xs ! i) then f (xs ! i) else 0)"
    by (simp add: sum_list_sum_nth atLeast0LessThan)
  also have "\<dots> = (\<Sum>i\<in>{i. i < length xs \<and> P (xs ! i)}. f (xs ! i))"
    by (rule sum.mono_neutral_cong_right) auto
  finally show ?thesis .
qed

lemma sum_list_index: "sum_list (map f xs) = (\<Sum>i<length xs. (f (xs ! i) :: real))"
  by (simp add: sum_list_sum_nth atLeast0LessThan)

text \<open>
  Claim C3. For every dataframe, the revenue field of \<^const>\<open>pnl\<close> is the sum of profit
  over exactly the rows (the positions of the table) whose ledger type is "revenue", the
  expenses field the sum over exactly the rows whose ledger type is "expenses", and the
  net field the sum of profit over all rows.
\<close>

theorem pnl_sums:
  "revenue (pnl d) = (\<Sum>i\<in>{i. i < length d \<and> ledger_type (d ! i) = Some ''revenue''}. profit (d ! i))
   \<and> expenses (pnl d) = (\<Sum>i\<in>{i. i < length d \<and> ledger_type (d ! i) = Some ''expenses''}. profit (d ! i))
   \<and> net (pnl d) = (\<Sum>i<length d. profit (d ! i))"
proof -
  have "net (pnl d) = (\<Sum>i<length d. profit (d ! i))"
    unfolding pnl_def by (simp add: sum_list_index)
  then show ?thesis
    by (simp add: pnl_def sum_list_filter_index)
qed




text \<open>
  Claim C4, as stated, fails for the property name \<open>None\<close>: on the small ledger
  \<^const>\<open>property_pnl\<close> sums the rows without a property name (there are none), while
  \<^const>\<open>property_summary\<close> sums every row.
\<close>

theorem property_pnl_none_counterexample:
  "property_pnl ledger None None None None = \<lparr> revenue = 0, expenses = 0, net = 0 \<rparr>
   \<and> property_summary ledger None None None None = \<lparr> revenue = 5, expenses = - 5, net = 7 \<rparr>
   \<and> property_pnl ledger None None None None \<noteq> property_summary ledger None None None None"
  by (simp add: property_pnl_def property_summary_def pnl_def filter_timeframe_def
        filter_property_def fillna_def or_empty_def ledger_def blank_def)

text \<open>
  Claim C4, amended. For every property name that is not \<open>None\<close>, every year, quarter
  and month, \<^const>\<open>property_pnl\<close> and \<^const>\<open>property_summary\<close> return the same
  dictionary on the same repository. For \<open>None\<close>, \<^const>\<open>property_pnl\<close> answers as
  both do for the empty name (the rows with a missing or empty property name), and
  \<^const>\<open>property_summary\<close> is the profit and loss of all rows of the timeframe.
\<close>

theorem property_pnl_summary_named:
  "property_pnl repo (Some n) yr qt mo = property_summary repo (Some n) yr qt mo
   \<and> property_pnl repo None yr qt mo = property_summary repo (Some []) yr qt mo
   \<and> property_summary repo None yr qt mo = pnl (filter_timeframe repo yr qt mo)"
  by (simp add: property_pnl_def property_summary_def pnl_def filter_property_def or_empty_def Let_def)

section \<open>Search, validation and the calc node\<close>











lemma validate_props_acc:
  "validate_props repo (list_properties repo) ps val bad =
     (val @ map (canonical repo) (filter (accepted repo) ps),
      bad @ filter (\<lambda>p. \<not> accepted repo p) ps)"
  by (induction ps arbitrary: val bad)
     (auto simp: accepted_def canonical_def Let_def split: list.splits)


lemma calc_unfold:
  "calc repo st =
     (case filter (\<lambda>p. \<not> accepted repo p) (state_props st) of
        p # _ \<Rightarrow> Inr (clarification (invalid_property_question p (list_properties repo)))
      | [] \<Rightarrow> calc_dispatch repo (list_properties repo) (state_intent st)
                (map (canonical repo) (filter (accepted repo) (state_props st)))
                (state_tenants st) (slot_year (state_slots st)) (slot_quarter (state_slots st))
                (slot_month (state_slots st)) (state_top_n st) (state_breakdown_by st))"
  by (simp add: calc_def Let_def validate_props_acc split: list.splits)

lemma returns_or_clarifies_simps:
  "returns_or_clarifies (Inr (calc_return res))"
  "returns_or_clarifies (Inr (clarification q))"
  "\<not> returns_or_clarifies (Inl e)"
  by (auto simp: returns_or_clarifies_def)

lemma calc_return_not_clarification: "calc_return res \<noteq> clarification q"
  by (simp add: calc_return_def clarification_def no_update_def)

lemma calc_return_inject: "calc_return res = calc_return res' \<longleftrightarrow> res = res'"
  by (auto simp: calc_return_def no_update_def)

lemma clarification_ex: "\<exists>q. clarification s = clarification q"
  by blast

lemma calc_dispatch_cases:
  "returns_or_clarifies (calc_dispatch repo vp i ps ts yr qt mo tn bb)"
  by (simp add: calc_dispatch_def compare_properties_def Let_def returns_or_clarifies_simps
        split: list.splits option.splits)

lemma calc_cases: "returns_or_clarifies (calc repo st)"
  by (simp add: calc_unfold calc_dispatch_cases returns_or_clarifies_simps split: list.splits)

lemma calc_invalid:
  assumes "\<exists>p\<in>set (state_props st). \<not> accepted repo p"
  shows "\<exists>q. calc repo st = Inr (clarification q)"
proof -
  from assms have "filter (\<lambda>p. \<not> accepted repo p) (state_props st) \<noteq> []"
    by (simp add: filter_empty_conv)
  then show ?thesis
    by (cases "filter (\<lambda>p. \<not> accepted repo p) (state_props st)") (simp_all add: calc_unfold clarification_ex)
qed


lemma calc_compare_few:
  assumes "state_intent st = ''compare_properties''"
    and "length (filter (accepted repo) (state_props st)) < 2"
  shows "\<exists>q. calc repo st = Inr (clarification q)"
proof (cases "filter (\<lambda>p. \<not> accepted repo p) (state_props st)")
  case Nil
  with assms show ?thesis by (simp add: calc_unfold calc_dispatch_def clarification_ex)
next
  case (Cons p ps)
  then show ?thesis by (simp add: calc_unfold clarification_ex)
qed




section \<open>Comparison and validation\<close>

lemma filter_rejected_empty:
  "filter (\<lambda>p. \<not> accepted repo p) ps = [] \<longleftrightarrow> list_all (accepted repo) ps"
  by (simp add: filter_empty_conv list_all_iff)

lemma filter_accepted_all: "list_all (accepted repo) ps \<Longrightarrow> filter (accepted repo) ps = ps"
  by (simp add: list_all_iff)

lemma calc_all_accepted:
  assumes "list_all (accepted repo) (state_props st)"
  shows "calc repo st =
           calc_dispatch repo (list_properties repo) (state_intent st)
             (map (canonical repo) (state_props st))
             (state_tenants st) (slot_year (state_slots st)) (slot_quarter (state_slots st))
             (slot_month (state_slots st)) (state_top_n st) (state_breakdown_by st)"
proof -
  from assms have "filter (\<lambda>p. \<not> accepted repo p) (state_props st) = []"
    by (simp add: filter_rejected_empty)
  with assms show ?thesis
    by (simp add: calc_unfold filter_accepted_all)
qed

lemma calc_never_raises: "calc repo st \<noteq> Inl e"
  using calc_cases [of repo st] by (auto simp: returns_or_clarifies_def)

lemma compare_properties_raises:
  "(compare_properties repo names yr qt mo = Inl e) \<longleftrightarrow> (e = ValueError \<and> length names < 2)"
  by (auto simp: compare_properties_def Let_def)

lemma calc_compare_enough:
  assumes "state_intent st = ''compare_properties''"
    and "list_all (accepted repo) (state_props st)"
    and "2 \<le> length (state_props st)"
  shows "\<exists>c. compare_properties repo (map (canonical repo) (state_props st))
               (slot_year (state_slots st)) (slot_quarter (state_slots st))
               (slot_month (state_slots st)) = Inr c
             \<and> calc repo st = Inr (calc_return (Comparison c
                 \<lparr> period_year = slot_year (state_slots st),
                   period_quarter = slot_quarter (state_slots st),
                   period_month = slot_month (state_slots st) \<rparr>))"
  using assms by (simp add: calc_all_accepted calc_dispatch_def compare_properties_def Let_def)

lemma calc_compare_not_enough:
  assumes "state_intent st = ''compare_properties''"
    and "\<not> (list_all (accepted repo) (state_props st) \<and> 2 \<le> length (state_props st))"
  shows "\<exists>q. calc repo st = Inr (clarification q)"
proof (cases "list_all (accepted repo) (state_props st)")
  case True
  with assms have "length (filter (accepted repo) (state_props st)) < 2"
    by (simp add: filter_accepted_all)
  with assms(1) show ?thesis by (rule calc_compare_few)
next
  case False
  then have "\<exists>p\<in>set (state_props st). \<not> accepted repo p"
    by (simp add: list_all_iff)
  then show ?thesis by (rule calc_invalid)
qed

lemma calc_dispatch_no_comparison:
  assumes "i \<noteq> ''compare_properties''"
  shows "calc_dispatch repo vp i ps ts yr qt mo tn bb \<noteq> Inr (calc_return (Comparison c per))"
  using assms
  by (simp add: calc_dispatch_def Let_def calc_return_inject calc_return_not_clarification
        calc_return_not_clarification [symmetric] split: list.splits option.splits)

lemma calc_no_comparison:
  assumes "state_intent st \<noteq> ''compare_properties''"
  shows "calc repo st \<noteq> Inr (calc_return (Comparison c per))"
  using assms calc_dispatch_no_comparison
  by (simp add: calc_unfold calc_return_not_clarification [symmetric] split: list.splits)

text \<open>
  Claim C7. \<^const>\<open>compare_properties\<close> raises ValueError exactly when it is given
  fewer than two names, and raises nothing else. The calc node never raises: with the
  intent compare_properties it compares the validated names when every extracted name
  is accepted and there are at least two, and returns a clarification request
  otherwise; with any other intent its result is not a comparison.
\<close>

theorem compare_properties_error_unreachable:
  "(compare_properties repo names yr qt mo = Inl ValueError \<longleftrightarrow> length names < 2)
   \<and> ((\<exists>e. compare_properties repo names yr qt mo = Inl e) \<longleftrightarrow> length names < 2)
   \<and> (\<forall>e. calc repo st \<noteq> Inl e)
   \<and> (state_intent st = ''compare_properties'' \<longrightarrow>
        (if list_all (accepted repo) (state_props st) \<and> 2 \<le> length (state_props st)
         then \<exists>c. compare_properties repo (map (canonical repo) (state_props st))
                     (slot_year (state_slots st)) (slot_quarter (state_slots st))
                     (slot_month (state_slots st)) = Inr c
                   \<and> calc repo st = Inr (calc_return (Comparison c
                       \<lparr> period_year = slot_year (state_slots st),
                         period_quarter = slot_quarter (state_slots st),
                         period_month = slot_month (state_slots st) \<rparr>))
         else \<exists>q. calc repo st = Inr (clarification q)))
   \<and> (state_intent st \<noteq> ''compare_properties'' \<longrightarrow>
        (\<forall>c per. calc repo st \<noteq> Inr (calc_return (Comparison c per))))"
proof -
  have "compare_properties repo names yr qt mo = Inl ValueError \<longleftrightarrow> length names < 2"
    by (simp add: compare_properties_raises)
  moreover have "(\<exists>e. compare_properties repo names yr qt mo = Inl e) \<longleftrightarrow> length names < 2"
    by (simp add: compare_properties_raises)
  moreover have "\<forall>e. calc repo st \<noteq> Inl e"
    by (simp add: calc_never_raises)
  ultimately show ?thesis
    using calc_compare_enough [of st repo] calc_compare_not_enough [of st repo]
      calc_no_comparison [of st repo]
    by (simp only: split: if_split) blast
qed

theorem compare_properties_error_unreachable_witness:
  "state_intent (request ''compare_properties'' [''building a'', ''Carport''] []) = ''compare_properties''
   \<and> list_all (accepted ledger) [''building a'', ''Carport'']
   \<and> (\<exists>c per. calc ledger (request ''compare_properties'' [''building a'', ''Carport''] [])
                 = Inr (calc_return (Comparison c per)))
   \<and> state_intent (request ''top_expenses'' [] []) \<noteq> ''compare_properties''
   \<and> (\<forall>c per. calc ledger (request ''top_expenses'' [] []) \<noteq> Inr (calc_return (Comparison c per)))"
proof -
  have props: "state_props (request i ps ts) = ps" "state_intent (request i ps ts) = i" for i ps ts
    by (simp_all add: state_props_def state_intent_def state_slots_def
          request_def empty_state_def empty_slots_def)
  have ok: "list_all (accepted ledger) [''building a'', ''Carport'']"
    by code_simp
  then show ?thesis
    using compare_properties_error_unreachable
            [where repo = ledger and st = "request ''compare_properties'' [''building a'', ''Carport''] []"]
      compare_properties_error_unreachable
            [where repo = ledger and st = "request ''top_expenses'' [] []"]
    by (simp add: props) blast
qed



section \<open>Top expenses\<close>


















section \<open>The run of the graph\<close>



















end
